theory Spec2Isabelle
  imports Main "HOL-Library.Word"
begin

unbundle bit_operations_syntax

section \<open>The VEML6070 driver (Adafruit_VEML6070.cpp)\<close>

type_synonym uint8_t = "8 word"
type_synonym uint16_t = "16 word"

subsection \<open>The world outside the driver: bus transport and timebase\<close>

text \<open>
  Everything the driver does to its collaborators is recorded, in program order, in one
  trace: each call of a transport primitive and each call of \<open>delay\<close> is one event.
\<close>

datatype event =
    Begin
  | BeginTransmission uint8_t
  | Write uint8_t
  | EndTransmission
  | RequestFrom uint8_t uint8_t
  | Read
  | Delay nat

text \<open>
  The transport object behind the \<open>_i2c\<close> pointer is shared with the caller, so it is
  an explicit store: the trace, the receive buffer of the last read request, and the
  device's answers to the read requests still to come (one list of bytes per request;
  an empty list, or no list left, is a request nobody acknowledged).
\<close>

record world =
  trace :: "event list"
  rxBuffer :: "uint8_t list"
  device :: "uint8_t list list"

definition emit :: "event \<Rightarrow> world \<Rightarrow> world" where
  "emit e w = w\<lparr>trace := trace w @ [e]\<rparr>"

text \<open>
  Modelled from the spec: the transport class \<open>I2C\<close> (TwoWire of Wire.h, SoftWire of
  SoftWire.h) is not part of the repository. Section 4.2 of the spec lists its six
  primitives: initialise, begin a write transaction, write a byte, end the
  transaction, request N bytes (returning the number received, at most N), and read
  the next buffered byte of the completed request (\<open>-1\<close> when none is buffered).
\<close>

definition i2c_begin :: "world \<Rightarrow> world" where
  "i2c_begin w = emit Begin w"

definition i2c_beginTransmission :: "uint8_t \<Rightarrow> world \<Rightarrow> world" where
  "i2c_beginTransmission address w = emit (BeginTransmission address) w"

definition i2c_write :: "uint8_t \<Rightarrow> world \<Rightarrow> world" where
  "i2c_write b w = emit (Write b) w"

definition i2c_endTransmission :: "world \<Rightarrow> world" where
  "i2c_endTransmission w = emit EndTransmission w"

definition i2c_requestFrom :: "uint8_t \<Rightarrow> uint8_t \<Rightarrow> world \<Rightarrow> uint8_t \<times> world" where
  "i2c_requestFrom address quantity w =
     (let received = (case device w of [] \<Rightarrow> [] | r # _ \<Rightarrow> take (unat quantity) r)
      in (of_nat (length received),
          (emit (RequestFrom address quantity) w)
            \<lparr>rxBuffer := received, device := tl (device w)\<rparr>))"

definition i2c_read :: "world \<Rightarrow> int \<times> world" where
  "i2c_read w =
     (case rxBuffer w of
        [] \<Rightarrow> (- 1, emit Read w)
      | b # bs \<Rightarrow> (uint b, (emit Read w)\<lparr>rxBuffer := bs\<rparr>))"

text \<open>
  Modelled from the spec: \<open>delay\<close> is the Arduino core's blocking millisecond delay
  (Arduino.h), the timebase of section 4.3; it is not part of the repository.
\<close>

definition delay :: "nat \<Rightarrow> world \<Rightarrow> world" where
  "delay ms w = emit (Delay ms) w"

subsection \<open>Declarations of Adafruit_VEML6070.h\<close>

text \<open>
  Modelled from the spec: the header Adafruit_VEML6070.h is not part of the
  repository. The three bus addresses are those of the spec's address table
  (section 3): alert response \<open>0x0C\<close>, high byte \<open>0x39\<close>, low byte and command
  \<open>0x38\<close>.
\<close>

definition VEML6070_ADDR_ARA :: uint8_t where
  "VEML6070_ADDR_ARA = 0x0C"

definition VEML6070_ADDR_H :: uint8_t where
  "VEML6070_ADDR_H = 0x39"

definition VEML6070_ADDR_L :: uint8_t where
  "VEML6070_ADDR_L = 0x38"

text \<open>
  The driver object: the cached command register. Its other member, the pointer
  \<open>_i2c\<close>, names the transport, which lives in the \<open>world\<close>.
\<close>

record Adafruit_VEML6070 =
  commandRegister :: uint8_t

text \<open>
  Modelled from the spec: the union \<open>commandRegister\<close> of the header overlays the byte
  \<open>reg\<close> with the bit-field view \<open>bit\<close>. The layout is the table of section 3 of the
  spec: SD is bit 0, bit 1 is reserved, IT is bits 2-3, ACK_THD is bit 4, ACK is
  bit 5. Storing into a bit-field keeps the low bits of the value that fit the field
  and leaves every other bit of the byte alone.
\<close>

definition set_SD :: "uint8_t \<Rightarrow> uint8_t \<Rightarrow> uint8_t" where
  "set_SD v reg = (reg AND NOT 0x01) OR (v AND 1)"

definition set_IT :: "uint8_t \<Rightarrow> uint8_t \<Rightarrow> uint8_t" where
  "set_IT v reg = (reg AND NOT 0x0C) OR push_bit 2 (v AND 3)"

definition set_ACK_THD :: "uint8_t \<Rightarrow> uint8_t \<Rightarrow> uint8_t" where
  "set_ACK_THD v reg = (reg AND NOT 0x10) OR push_bit 4 (v AND 1)"

definition set_ACK :: "uint8_t \<Rightarrow> uint8_t \<Rightarrow> uint8_t" where
  "set_ACK v reg = (reg AND NOT 0x20) OR push_bit 5 (v AND 1)"

definition get_IT :: "uint8_t \<Rightarrow> uint8_t" where
  "get_IT reg = drop_bit 2 reg AND 3"

text \<open>A C++ \<open>bool\<close> stored into an integer field is 0 or 1.\<close>

definition of_cbool :: "bool \<Rightarrow> uint8_t" where
  "of_cbool b = (if b then 1 else 0)"

subsection \<open>The member functions\<close>

text \<open>The constructor: the default setting \<open>0x02\<close>; no call on the transport.\<close>

definition Adafruit_VEML6070_new :: Adafruit_VEML6070 where
  "Adafruit_VEML6070_new = \<lparr>commandRegister = 0x02\<rparr>"

text \<open>\<open>writeCommand\<close>: begin, beginTransmission, write of the whole register, end.\<close>

definition writeCommand :: "Adafruit_VEML6070 \<Rightarrow> world \<Rightarrow> world" where
  "writeCommand d w =
     i2c_endTransmission
       (i2c_write (commandRegister d)
         (i2c_beginTransmission VEML6070_ADDR_L
           (i2c_begin w)))"

text \<open>
  \<open>clearAck\<close>: begin, then one request of one byte from the alert response address; the
  count returned is converted to \<open>bool\<close>. The function never calls \<open>read\<close>.
\<close>

definition clearAck :: "Adafruit_VEML6070 \<Rightarrow> world \<Rightarrow> bool \<times> Adafruit_VEML6070 \<times> world" where
  "clearAck d w =
     (let (n, w') = i2c_requestFrom VEML6070_ADDR_ARA 1 (i2c_begin w);
          ret = (n \<noteq> 0)
      in (ret, d, w'))"

text \<open>\<open>begin\<close>: store the integration time, clear the alert, write the command.\<close>

definition begin_drv :: "uint8_t \<Rightarrow> Adafruit_VEML6070 \<Rightarrow> world \<Rightarrow> Adafruit_VEML6070 \<times> world" where
  "begin_drv itime d w =
     (let d1 = d\<lparr>commandRegister := set_IT itime (commandRegister d)\<rparr>;
          (_, d2, w1) = clearAck d1 w
      in (d2, writeCommand d2 w1))"

text \<open>\<open>setInterrupt\<close>: store ACK, then ACK_THD, clear the alert, write the command.\<close>

definition setInterrupt :: "bool \<Rightarrow> bool \<Rightarrow> Adafruit_VEML6070 \<Rightarrow> world \<Rightarrow> Adafruit_VEML6070 \<times> world" where
  "setInterrupt state level d w =
     (let d1 = d\<lparr>commandRegister := set_ACK (of_cbool state) (commandRegister d)\<rparr>;
          d2 = d1\<lparr>commandRegister := set_ACK_THD (of_cbool level) (commandRegister d1)\<rparr>;
          (_, d3, w1) = clearAck d2 w
      in (d3, writeCommand d3 w1))"

text \<open>\<open>sleep\<close>: store SD, write the command.\<close>

definition sleep :: "bool \<Rightarrow> Adafruit_VEML6070 \<Rightarrow> world \<Rightarrow> Adafruit_VEML6070 \<times> world" where
  "sleep state d w =
     (let d1 = d\<lparr>commandRegister := set_SD (of_cbool state) (commandRegister d)\<rparr>
      in (d1, writeCommand d1 w))"

text \<open>
  \<open>waitForNext\<close>, first loop: \<open>for (uint8_t i = IT; i > 0; i--) { itCount *= 2; }\<close>
  on 8-bit unsigned values.
\<close>

function itCount_loop :: "uint8_t \<Rightarrow> uint8_t \<Rightarrow> uint8_t" where
  "itCount_loop i itCount = (if 0 < i then itCount_loop (i - 1) (itCount * 2) else itCount)"
  by pat_completeness auto
termination
  by (relation "measure (\<lambda>(i, itCount). unat i)")
     (auto simp: unat_minus_one word_greater_zero_iff unat_gt_0)

text \<open>
  Second loop: \<open>for (uint8_t i = 0; i < itCount; i++) { delay(63); }\<close>. The counter
  stays below \<open>itCount\<close>, so the increment never wraps and the loop ends.
\<close>

function delay_loop :: "uint8_t \<Rightarrow> uint8_t \<Rightarrow> world \<Rightarrow> world" where
  "delay_loop i itCount w = (if i < itCount then delay_loop (i + 1) itCount (delay 63 w) else w)"
  by pat_completeness auto
termination
proof (relation "measure (\<lambda>(i, itCount, w). unat itCount - unat i)")
  fix i itCount :: uint8_t and w :: world
  assume "i < itCount"
  then have "unat (i + 1) = Suc (unat i)" and "unat i < unat itCount"
    by unat_arith+
  then show "((i + 1, itCount, delay 63 w), (i, itCount, w))
      \<in> measure (\<lambda>(i, itCount, w). unat itCount - unat i)"
    by simp
qed simp

definition waitForNext :: "Adafruit_VEML6070 \<Rightarrow> world \<Rightarrow> world" where
  "waitForNext d w =
     (let itCount = itCount_loop (get_IT (commandRegister d)) 1
      in delay_loop 0 itCount w)"

text \<open>
  \<open>readUV\<close>: wait, request the high byte, read it into the 16-bit \<open>uvi\<close>, shift it
  left by 8, request the low byte, or it in. Either request returning a count other
  than 1 returns \<open>-1\<close>, converted to the unsigned 16-bit return type. The value \<open>read\<close>
  returns is an \<open>int\<close>; storing it into \<open>uvi\<close> keeps its low 16 bits.
\<close>

definition readUV :: "Adafruit_VEML6070 \<Rightarrow> world \<Rightarrow> uint16_t \<times> Adafruit_VEML6070 \<times> world" where
  "readUV d w =
     (let w1 = waitForNext d w;
          (n1, w2) = i2c_requestFrom VEML6070_ADDR_H 1 w1
      in if n1 \<noteq> 1 then (word_of_int (- 1), d, w2)
         else
           let (r1, w3) = i2c_read w2;
               uvi = (word_of_int r1 :: uint16_t);
               uvi = push_bit 8 uvi;
               (n2, w4) = i2c_requestFrom VEML6070_ADDR_L 1 w3
           in if n2 \<noteq> 1 then (word_of_int (- 1), d, w4)
              else
                let (r2, w5) = i2c_read w4
                in (uvi OR word_of_int r2, d, w5))"

subsection \<open>Sequences of public calls\<close>

text \<open>
  A world in which nothing has happened yet: an empty trace, an empty receive buffer,
  and the answers \<open>dev\<close> the device will give.
\<close>

definition world0 :: "uint8_t list list \<Rightarrow> world" where
  "world0 dev = \<lparr>trace = [], rxBuffer = [], device = dev\<rparr>"

datatype call =
    CallBegin uint8_t
  | CallSetInterrupt bool bool
  | CallSleep bool
  | CallReadUV
  | CallClearAck

fun step :: "Adafruit_VEML6070 \<times> world \<Rightarrow> call \<Rightarrow> Adafruit_VEML6070 \<times> world" where
  "step (d, w) (CallBegin itime) = begin_drv itime d w"
| "step (d, w) (CallSetInterrupt state level) = setInterrupt state level d w"
| "step (d, w) (CallSleep state) = sleep state d w"
| "step (d, w) CallReadUV = snd (readUV d w)"
| "step (d, w) CallClearAck = snd (clearAck d w)"

definition run :: "call list \<Rightarrow> uint8_t list list \<Rightarrow> Adafruit_VEML6070 \<times> world" where
  "run calls dev = foldl step (Adafruit_VEML6070_new, world0 dev) calls"

subsection \<open>Reading a trace\<close>

text \<open>The command bytes transmitted, the milliseconds waited, and the bus transactions
  (section 6 of the spec: a read request of N bytes from an address, or a write of a
  list of bytes to an address) that a list of events amounts to.\<close>

fun written :: "event list \<Rightarrow> uint8_t list" where
  "written [] = []"
| "written (Write b # es) = b # written es"
| "written (_ # es) = written es"

fun delayed :: "event list \<Rightarrow> nat" where
  "delayed [] = 0"
| "delayed (Delay ms # es) = ms + delayed es"
| "delayed (_ # es) = delayed es"

fun payload :: "event list \<Rightarrow> uint8_t list" where
  "payload (Write b # es) = b # payload es"
| "payload _ = []"

datatype transaction =
    ReadFrom uint8_t uint8_t
  | WriteTo uint8_t "uint8_t list"

fun transactions :: "event list \<Rightarrow> transaction list" where
  "transactions [] = []"
| "transactions (RequestFrom a n # es) = ReadFrom a n # transactions es"
| "transactions (BeginTransmission a # es) = WriteTo a (payload es) # transactions es"
| "transactions (_ # es) = transactions es"

text \<open>The bytes the device will answer to the \<open>k\<close>-th read request from now: none when
  the request is not acknowledged.\<close>

definition answer :: "world \<Rightarrow> nat \<Rightarrow> uint8_t list" where
  "answer w k = (if k < length (device w) then device w ! k else [])"

text \<open>The events that happened between an earlier world \<open>w\<close> and a later one \<open>w'\<close>.\<close>

definition since :: "world \<Rightarrow> world \<Rightarrow> event list" where
  "since w w' = drop (length (trace w)) (trace w')"

text \<open>The delays of one integration period: \<open>2 ^ IT\<close> slots of 63 ms.\<close>

definition waited :: "Adafruit_VEML6070 \<Rightarrow> event list" where
  "waited d = replicate (2 ^ unat (get_IT (commandRegister d))) (Delay 63)"

text \<open>The reserved bit 1 is set in the cached register and in every byte written so far.\<close>

definition reserved_ok :: "Adafruit_VEML6070 \<times> world \<Rightarrow> bool" where
  "reserved_ok s =
     (bit (commandRegister (fst s)) 1 \<and> list_all (\<lambda>b. bit b 1) (written (trace (snd s))))"

declare itCount_loop.simps [simp del] delay_loop.simps [simp del]

section \<open>Facts about the model\<close>

subsection \<open>Reading a trace\<close>

lemma since_append [simp]:
  "trace w' = trace w @ evs \<Longrightarrow> since w w' = evs"
  by (simp add: since_def)

lemma written_append: "written (xs @ ys) = written xs @ written ys"
  by (induction xs rule: written.induct) simp_all

lemma delayed_append: "delayed (xs @ ys) = delayed xs + delayed ys"
  by (induction xs rule: delayed.induct) simp_all

lemma delayed_replicate: "delayed (replicate n (Delay ms)) = n * ms"
  by (induction n) simp_all

lemma written_replicate: "written (replicate n (Delay ms)) = []"
  by (induction n) simp_all

lemma transactions_replicate: "transactions (replicate n (Delay ms) @ es) = transactions es"
  by (induction n) simp_all

lemma payload_append_Begin: "payload (xs @ Begin # ys) = payload xs"
  by (induction xs rule: payload.induct) simp_all

lemma transactions_append_Begin:
  "transactions (xs @ Begin # ys) = transactions xs @ transactions ys"
  by (induction xs rule: transactions.induct) (simp_all add: payload_append_Begin)

lemma answer_tl: "answer (w\<lparr>device := tl (device w)\<rparr>) k = answer w (Suc k)"
  by (cases "device w") (simp_all add: answer_def)

lemma answer_upd [simp]:
  "answer (w\<lparr>trace := t\<rparr>) k = answer w k"
  "answer (w\<lparr>rxBuffer := b\<rparr>) k = answer w k"
  by (simp_all add: answer_def)

lemma answer_after_request:
  "answer (w\<lparr>trace := t, rxBuffer := b, device := tl (device w)\<rparr>) k = answer w (Suc k)"
  by (cases "device w") (simp_all add: answer_def)

lemma take1: "xs \<noteq> [] \<Longrightarrow> take (Suc 0) xs = [hd xs]"
  by (cases xs) simp_all

subsection \<open>The bit-fields\<close>

lemma m3: "(3::uint8_t) = mask 2"
  by (simp add: mask_eq_exp_minus_1)

lemma m1: "(1::uint8_t) = mask 1"
  by (simp add: mask_eq_exp_minus_1)

lemma mC: "(0x0C::uint8_t) = push_bit 2 (mask 2)"
  by (simp add: mask_eq_exp_minus_1)

lemma bit_16: "bit (16::int) n \<longleftrightarrow> n = 4"
proof -
  have "(16::int) = 2 ^ 4" by simp
  then show ?thesis by (simp only: bit_exp_iff) auto
qed

lemma bit_32: "bit (32::int) n \<longleftrightarrow> n = 5"
proof -
  have "(32::int) = 2 ^ 5" by simp
  then show ?thesis by (simp only: bit_exp_iff) auto
qed

lemma bit_set_IT:
  "bit (set_IT v r) n = (if n = 2 then bit v 0 else if n = 3 then bit v 1 else bit r n)"
  unfolding set_IT_def m3 mC
  by (auto simp add: bit_simps dest: bit_imp_le_length)

lemma bit_set_SD:
  "bit (set_SD v r) n = (if n = 0 then bit v 0 else bit r n)"
  unfolding set_SD_def m1
  by (auto simp add: bit_simps dest: bit_imp_le_length)

lemma bit_set_ACK_THD:
  "bit (set_ACK_THD v r) n = (if n = 4 then bit v 0 else bit r n)"
  unfolding set_ACK_THD_def m1
  by (auto simp add: bit_simps bit_16 dest: bit_imp_le_length)

lemma bit_set_ACK:
  "bit (set_ACK v r) n = (if n = 5 then bit v 0 else bit r n)"
  unfolding set_ACK_def m1
  by (auto simp add: bit_simps bit_32 dest: bit_imp_le_length)

lemma bit_of_cbool: "bit (of_cbool b) 0 = b"
  by (simp add: of_cbool_def)

lemma bit_get_IT: "bit (get_IT r) n = (n < 2 \<and> bit r (n + 2))"
  unfolding get_IT_def m3
  by (auto simp add: bit_simps)

lemma le3_bits:
  assumes "(v::uint8_t) \<le> 3" and "2 \<le> n"
  shows "\<not> bit v n"
proof -
  from assms(1) have "v < 2 ^ 2" by unat_arith
  then have "v AND mask 2 = v" by (rule less_mask_eq)
  then have "bit v n = bit (v AND mask 2) n" by simp
  also have "\<dots> = False" using assms(2) by (simp add: bit_simps)
  finally show ?thesis by simp
qed

lemma get_set_IT: "v \<le> 3 \<Longrightarrow> get_IT (set_IT v r) = v"
  by (rule bit_word_eqI) (auto simp: bit_get_IT bit_set_IT le3_bits)

lemma get_IT_cases: "get_IT r = 0 \<or> get_IT r = 1 \<or> get_IT r = 2 \<or> get_IT r = 3"
proof -
  have "get_IT r \<le> 3" unfolding get_IT_def by (rule word_and_le1)
  then show ?thesis by unat_arith
qed

subsection \<open>The two loops of waitForNext\<close>

lemma itCount_loop_IT: "unat (itCount_loop (get_IT r) 1) = 2 ^ unat (get_IT r)"
  using get_IT_cases [of r] by (elim disjE) (simp_all add: itCount_loop.simps)

lemma delay_loop_eq:
  "delay_loop i c w = w\<lparr>trace := trace w @ replicate (unat c - unat i) (Delay 63)\<rparr>"
proof (induction i c w rule: delay_loop.induct)
  case (1 i c w)
  show ?case
  proof (cases "i < c")
    case True
    then have s: "unat (i + 1) = Suc (unat i)" and l: "unat i < unat c"
      by unat_arith+
    from l have r: "unat c - unat i = Suc (unat c - Suc (unat i))" by simp
    have "delay_loop i c w = delay_loop (i + 1) c (delay 63 w)"
      using True by (subst delay_loop.simps) simp
    also have "\<dots> = (delay 63 w)
        \<lparr>trace := trace (delay 63 w) @ replicate (unat c - unat (i + 1)) (Delay 63)\<rparr>"
      using "1.IH" [OF True] .
    also have "\<dots> = w\<lparr>trace := trace w @ replicate (unat c - unat i) (Delay 63)\<rparr>"
      unfolding s r by (simp add: delay_def emit_def)
    finally show ?thesis .
  next
    case False
    then have "unat c - unat i = 0" by (simp add: word_less_nat_alt)
    with False show ?thesis by (subst delay_loop.simps) simp
  qed
qed

lemma waitForNext_eq: "waitForNext d w = w\<lparr>trace := trace w @ waited d\<rparr>"
  by (simp add: waitForNext_def delay_loop_eq itCount_loop_IT waited_def)

subsection \<open>Closed forms of the member functions\<close>

lemma writeCommand_eq:
  "writeCommand d w =
     w\<lparr>trace := trace w @ [Begin, BeginTransmission VEML6070_ADDR_L,
                             Write (commandRegister d), EndTransmission]\<rparr>"
  by (simp add: writeCommand_def i2c_endTransmission_def i2c_write_def
      i2c_beginTransmission_def i2c_begin_def emit_def)

lemma requestFrom_one:
  "i2c_requestFrom a 1 w =
     (if answer w 0 = [] then 0 else 1,
      w\<lparr>trace := trace w @ [RequestFrom a 1], rxBuffer := take 1 (answer w 0),
        device := tl (device w)\<rparr>)"
  by (cases "device w"; cases "hd (device w)")
     (simp_all add: i2c_requestFrom_def answer_def emit_def)

lemma read_one:
  "rxBuffer w = [b] \<Longrightarrow> i2c_read w = (uint b, w\<lparr>trace := trace w @ [Read], rxBuffer := []\<rparr>)"
  by (simp add: i2c_read_def emit_def)

lemma clearAck_eq:
  "clearAck d w =
     (answer w 0 \<noteq> [], d,
      w\<lparr>trace := trace w @ [Begin, RequestFrom VEML6070_ADDR_ARA 1],
        rxBuffer := take 1 (answer w 0), device := tl (device w)\<rparr>)"
  by (simp add: clearAck_def requestFrom_one i2c_begin_def emit_def answer_def)

lemma begin_drv_eq:
  "begin_drv itime d w =
     (d\<lparr>commandRegister := set_IT itime (commandRegister d)\<rparr>,
      w\<lparr>trace := trace w @
           [Begin, RequestFrom VEML6070_ADDR_ARA 1, Begin, BeginTransmission VEML6070_ADDR_L,
            Write (set_IT itime (commandRegister d)), EndTransmission],
        rxBuffer := take 1 (answer w 0), device := tl (device w)\<rparr>)"
  by (simp add: begin_drv_def clearAck_eq writeCommand_eq)

lemma setInterrupt_eq:
  "setInterrupt state level d w =
     (d\<lparr>commandRegister :=
          set_ACK_THD (of_cbool level) (set_ACK (of_cbool state) (commandRegister d))\<rparr>,
      w\<lparr>trace := trace w @
           [Begin, RequestFrom VEML6070_ADDR_ARA 1, Begin, BeginTransmission VEML6070_ADDR_L,
            Write (set_ACK_THD (of_cbool level) (set_ACK (of_cbool state) (commandRegister d))),
            EndTransmission],
        rxBuffer := take 1 (answer w 0), device := tl (device w)\<rparr>)"
  by (simp add: setInterrupt_def clearAck_eq writeCommand_eq)

lemma sleep_eq:
  "sleep state d w =
     (d\<lparr>commandRegister := set_SD (of_cbool state) (commandRegister d)\<rparr>,
      w\<lparr>trace := trace w @
           [Begin, BeginTransmission VEML6070_ADDR_L,
            Write (set_SD (of_cbool state) (commandRegister d)), EndTransmission]\<rparr>)"
  by (simp add: sleep_def writeCommand_eq)

lemma readUV_eq:
  "readUV d w =
    (if answer w 0 = [] then
       (0xFFFF, d,
        w\<lparr>trace := trace w @ waited d @ [RequestFrom VEML6070_ADDR_H 1],
          rxBuffer := [], device := tl (device w)\<rparr>)
     else if answer w 1 = [] then
       (0xFFFF, d,
        w\<lparr>trace := trace w @ waited d @
            [RequestFrom VEML6070_ADDR_H 1, Read, RequestFrom VEML6070_ADDR_L 1],
          rxBuffer := [], device := tl (tl (device w))\<rparr>)
     else
       (push_bit 8 (ucast (hd (answer w 0))) OR ucast (hd (answer w 1)), d,
        w\<lparr>trace := trace w @ waited d @
            [RequestFrom VEML6070_ADDR_H 1, Read, RequestFrom VEML6070_ADDR_L 1, Read],
          rxBuffer := [], device := tl (tl (device w))\<rparr>))"
  by (simp add: readUV_def waitForNext_eq requestFrom_one read_one take1
      answer_after_request answer_tl Let_def)

subsection \<open>What each call leaves alone\<close>

lemma requestFrom_count:
  "fst (i2c_requestFrom a 1 w) < 1 \<longleftrightarrow> answer w 0 = []"
  by (simp add: requestFrom_one)

lemma readUV_frame:
  "fst (snd (readUV d w)) = d \<and> written (trace (snd (snd (readUV d w)))) = written (trace w)"
  by (simp add: readUV_eq waited_def written_append written_replicate)

lemma clearAck_frame:
  "fst (snd (clearAck d w)) = d \<and> written (trace (snd (snd (clearAck d w)))) = written (trace w)"
  by (simp add: clearAck_eq written_append)

lemma step_reserved_ok: "reserved_ok s \<Longrightarrow> reserved_ok (step s c)"
proof (cases s)
  case (Pair d w)
  assume ok: "reserved_ok s"
  show ?thesis
  proof (cases c)
    case (CallBegin itime)
    with Pair ok show ?thesis
      by (simp add: reserved_ok_def begin_drv_eq written_append bit_set_IT)
  next
    case (CallSetInterrupt state level)
    with Pair ok show ?thesis
      by (simp add: reserved_ok_def setInterrupt_eq written_append bit_set_ACK bit_set_ACK_THD)
  next
    case (CallSleep state)
    with Pair ok show ?thesis
      by (simp add: reserved_ok_def sleep_eq written_append bit_set_SD)
  next
    case CallReadUV
    with Pair ok show ?thesis
      by (simp add: reserved_ok_def readUV_frame)
  next
    case CallClearAck
    with Pair ok show ?thesis
      by (simp add: reserved_ok_def clearAck_frame)
  qed
qed

lemma foldl_reserved_ok: "reserved_ok s \<Longrightarrow> reserved_ok (foldl step s calls)"
  by (induction calls arbitrary: s) (simp_all add: step_reserved_ok)

lemma new_reserved_ok: "reserved_ok (Adafruit_VEML6070_new, world0 dev)"
  by (simp add: reserved_ok_def Adafruit_VEML6070_new_def world0_def)

subsection \<open>Which calls initialise the transport\<close>

text \<open>
  \<open>begin\<close>, \<open>setInterrupt\<close>, \<open>sleep\<close> and \<open>clearAck\<close> start with the transport's \<open>begin\<close>,
  through \<open>clearAck\<close> or \<open>writeCommand\<close>; \<open>readUV\<close> never calls it.
\<close>

lemma transport_begin_first:
  "hd (since w (snd (begin_drv itime d w))) = Begin"
  "hd (since w (snd (setInterrupt state level d w))) = Begin"
  "hd (since w (snd (sleep state d w))) = Begin"
  "hd (since w (snd (snd (clearAck d w)))) = Begin"
  by (simp_all add: begin_drv_eq setInterrupt_eq sleep_eq clearAck_eq)

lemma readUV_never_begins: "Begin \<notin> set (since w (snd (snd (readUV d w))))"
  by (simp add: readUV_eq waited_def)

section \<open>The claims\<close>

text \<open>
  C1. When the device answers both read requests of \<open>readUV\<close> with a byte (\<open>hi\<close> to the
  first, \<open>lo\<close> to the second), the call first waits \<open>2 ^ IT\<close> slots of 63 ms, that is
  \<open>63 * 2 ^ IT\<close> ms, where IT is the integration-time field of the cached command
  register; then it requests one byte from \<open>0x39\<close>, reads it, requests one byte from
  \<open>0x38\<close> and reads it; these two read requests are its only bus transactions; and it
  returns \<open>(hi << 8) | lo\<close>.
\<close>

theorem readUV_success:
  assumes "answer w 0 = hi # r0" and "answer w 1 = lo # r1"
  shows "let r = readUV d w; w' = snd (snd r); n = 2 ^ unat (get_IT (commandRegister d)) in
      fst r = push_bit 8 (ucast hi) OR ucast lo \<and>
      trace w' = trace w @ replicate n (Delay 63) @
        [RequestFrom 0x39 1, Read, RequestFrom 0x38 1, Read] \<and>
      delayed (since w w') = 63 * n \<and>
      transactions (since w w') = [ReadFrom 0x39 1, ReadFrom 0x38 1]"
  using assms
  by (simp add: readUV_eq waited_def VEML6070_ADDR_H_def VEML6070_ADDR_L_def
      delayed_append delayed_replicate transactions_replicate)

theorem readUV_success_witness:
  "fst (readUV Adafruit_VEML6070_new (world0 [[0x01], [0x23]])) = 0x0123 \<and>
   delayed (trace (snd (snd (readUV Adafruit_VEML6070_new (world0 [[0x01], [0x23]]))))) = 63"
  using readUV_success [of "world0 [[0x01], [0x23]]" "0x01" "[]" "0x23" "[]" Adafruit_VEML6070_new]
  by (simp add: answer_def world0_def Adafruit_VEML6070_new_def get_IT_def Let_def)

text \<open>
  C2. The request for the high byte from \<open>0x39\<close> returns fewer than 1 byte exactly when
  the device's answer to it is empty. When it does, \<open>readUV\<close> returns \<open>0xFFFF\<close>,
  which is \<open>-1\<close> as an unsigned 16-bit value, and its only bus transaction is that request:
  no request to \<open>0x38\<close> is issued. When the high byte arrives and the request for the low
  byte from \<open>0x38\<close> returns fewer than 1 byte, \<open>readUV\<close> returns the same \<open>0xFFFF\<close>.
\<close>

theorem readUV_short_read:
  "(fst (i2c_requestFrom VEML6070_ADDR_H 1 (waitForNext d w)) < 1 \<longleftrightarrow> answer w 0 = []) \<and>
   (answer w 0 = [] \<longrightarrow>
      (let r = readUV d w; w' = snd (snd r) in
         fst r = 0xFFFF \<and> fst r = word_of_int (- 1) \<and>
         transactions (since w w') = [ReadFrom 0x39 1] \<and>
         RequestFrom 0x38 1 \<notin> set (since w w'))) \<and>
   (answer w 0 \<noteq> [] \<and> answer w 1 = [] \<longrightarrow>
      (let r = readUV d w; w' = snd (snd r) in
         fst r = 0xFFFF \<and> fst r = word_of_int (- 1) \<and>
         transactions (since w w') = [ReadFrom 0x39 1, ReadFrom 0x38 1]))"
  by (simp add: readUV_eq waited_def VEML6070_ADDR_H_def VEML6070_ADDR_L_def
      transactions_replicate requestFrom_one waitForNext_eq)

theorem readUV_short_read_witness:
  "fst (readUV Adafruit_VEML6070_new (world0 [[], [0x23]])) = 0xFFFF \<and>
   transactions (trace (snd (snd (readUV Adafruit_VEML6070_new (world0 [[], [0x23]])))))
     = [ReadFrom 0x39 1] \<and>
   fst (readUV Adafruit_VEML6070_new (world0 [[0x01], []])) = 0xFFFF \<and>
   transactions (trace (snd (snd (readUV Adafruit_VEML6070_new (world0 [[0x01], []])))))
     = [ReadFrom 0x39 1, ReadFrom 0x38 1]"
  using readUV_short_read [of Adafruit_VEML6070_new "world0 [[], [0x23]]"]
    readUV_short_read [of Adafruit_VEML6070_new "world0 [[0x01], []]"]
  by (simp add: answer_def world0_def Let_def since_def)

text \<open>
  C3. After any sequence of public calls (\<open>begin\<close>, \<open>setInterrupt\<close>, \<open>sleep\<close>, \<open>readUV\<close>,
  \<open>clearAck\<close>, with any arguments and any answers of the device) on a freshly constructed
  driver, bit 1 of the cached command register is set, and bit 1 is set in every command
  byte that was written to the transport.
\<close>

theorem reserved_bit_preserved:
  "bit (commandRegister (fst (run calls dev))) 1 \<and>
   list_all (\<lambda>b. bit b 1) (written (trace (snd (run calls dev))))"
  using foldl_reserved_ok [OF new_reserved_ok, of dev calls]
  by (simp add: run_def reserved_ok_def)

theorem reserved_bit_preserved_witness:
  "written (trace (snd (run [CallBegin 3, CallSetInterrupt True True, CallSleep True, CallReadUV,
       CallClearAck, CallSleep False] [[], [], [0x01], [0x23], [0x55]])))
     = [0x0E, 0x3E, 0x3F, 0x3E] \<and>
   list_all (\<lambda>b. bit b 1) (written (trace (snd (run [CallBegin 3, CallSetInterrupt True True,
       CallSleep True, CallReadUV, CallClearAck, CallSleep False]
       [[], [], [0x01], [0x23], [0x55]]))))"
  using reserved_bit_preserved [of "[CallBegin 3, CallSetInterrupt True True, CallSleep True,
       CallReadUV, CallClearAck, CallSleep False]" "[[], [], [0x01], [0x23], [0x55]]"]
  by (simp add: run_def world0_def Adafruit_VEML6070_new_def begin_drv_eq setInterrupt_eq
      sleep_eq readUV_eq clearAck_eq written_append written_replicate waited_def answer_def
      set_IT_def set_ACK_def set_ACK_THD_def set_SD_def of_cbool_def)

text \<open>
  C4. For each integration-time code 0, 1, 2, 3, \<open>begin(code)\<close> transmits exactly one
  command byte: after the read request to \<open>0x0C\<close>, its one write transaction, addressed
  to \<open>0x38\<close>, carries one byte, the cached command register, and bits 2-3 of that byte
  equal the code. On a freshly constructed driver \<open>begin(1)\<close> transmits the byte \<open>0x06\<close>
  to \<open>0x38\<close>.
\<close>

theorem begin_integration_time:
  "(itime \<le> 3 \<longrightarrow>
      (let s = begin_drv itime d w; b = commandRegister (fst s) in
         written (since w (snd s)) = [b] \<and>
         transactions (since w (snd s)) = [ReadFrom 0x0C 1, WriteTo 0x38 [b]] \<and>
         trace (snd s) = trace w @
           [Begin, RequestFrom 0x0C 1, Begin, BeginTransmission 0x38, Write b, EndTransmission] \<and>
         drop_bit 2 b AND 3 = itime \<and>
         bit b 2 = bit itime 0 \<and> bit b 3 = bit itime 1)) \<and>
   written (since w (snd (begin_drv 1 Adafruit_VEML6070_new w))) = [0x06] \<and>
   transactions (since w (snd (begin_drv 1 Adafruit_VEML6070_new w)))
     = [ReadFrom 0x0C 1, WriteTo 0x38 [0x06]]"
proof -
  have "get_IT (set_IT itime (commandRegister d)) = itime" if "itime \<le> 3"
    using that by (rule get_set_IT)
  then have "drop_bit 2 (set_IT itime (commandRegister d)) AND 3 = itime" if "itime \<le> 3"
    using that by (simp add: get_IT_def)
  moreover have "set_IT 1 2 = 6"
    by (simp add: set_IT_def)
  ultimately show ?thesis
    by (simp add: begin_drv_eq Adafruit_VEML6070_new_def bit_set_IT
        VEML6070_ADDR_ARA_def VEML6070_ADDR_L_def)
qed

theorem begin_integration_time_witness:
  "transactions (trace (snd (begin_drv 0 Adafruit_VEML6070_new (world0 []))))
     = [ReadFrom 0x0C 1, WriteTo 0x38 [0x02]] \<and>
   transactions (trace (snd (begin_drv 1 Adafruit_VEML6070_new (world0 []))))
     = [ReadFrom 0x0C 1, WriteTo 0x38 [0x06]] \<and>
   transactions (trace (snd (begin_drv 2 Adafruit_VEML6070_new (world0 []))))
     = [ReadFrom 0x0C 1, WriteTo 0x38 [0x0A]] \<and>
   transactions (trace (snd (begin_drv 3 Adafruit_VEML6070_new (world0 []))))
     = [ReadFrom 0x0C 1, WriteTo 0x38 [0x0E]]"
  using begin_integration_time [of 0 Adafruit_VEML6070_new "world0 []"]
    begin_integration_time [of 1 Adafruit_VEML6070_new "world0 []"]
    begin_integration_time [of 2 Adafruit_VEML6070_new "world0 []"]
    begin_integration_time [of 3 Adafruit_VEML6070_new "world0 []"]
  by (simp add: begin_drv_eq Adafruit_VEML6070_new_def world0_def set_IT_def
      VEML6070_ADDR_ARA_def VEML6070_ADDR_L_def)

text \<open>
  C5. \<open>setInterrupt(state, level)\<close> transmits exactly one command byte: its one write
  transaction, addressed to \<open>0x38\<close>, carries one byte, and that transaction is the last
  bus transaction of the whole trace after the call. Bit 5 of the byte equals \<open>state\<close>,
  bit 4 equals \<open>level\<close>, and each of its other bits equals that bit of the command
  register cached before the call. On a freshly constructed driver
  \<open>setInterrupt(true, true)\<close> transmits \<open>0x32\<close> to \<open>0x38\<close>.
\<close>

theorem setInterrupt_bits:
  "(let s = setInterrupt state level d w; b = commandRegister (fst s) in
      written (since w (snd s)) = [b] \<and>
      last (written (trace (snd s))) = b \<and>
      transactions (since w (snd s)) = [ReadFrom 0x0C 1, WriteTo 0x38 [b]] \<and>
      last (transactions (trace (snd s))) = WriteTo 0x38 [b] \<and>
      trace (snd s) = trace w @
        [Begin, RequestFrom 0x0C 1, Begin, BeginTransmission 0x38, Write b, EndTransmission] \<and>
      bit b 5 = state \<and> bit b 4 = level \<and>
      (\<forall>n. n \<noteq> 4 \<and> n \<noteq> 5 \<longrightarrow> bit b n = bit (commandRegister d) n)) \<and>
   written (since w (snd (setInterrupt True True Adafruit_VEML6070_new w))) = [0x32] \<and>
   transactions (since w (snd (setInterrupt True True Adafruit_VEML6070_new w)))
     = [ReadFrom 0x0C 1, WriteTo 0x38 [0x32]]"
proof -
  have "set_ACK_THD 1 (set_ACK 1 2) = 0x32"
    by (simp add: set_ACK_THD_def set_ACK_def)
  then show ?thesis
    by (simp add: setInterrupt_eq Adafruit_VEML6070_new_def bit_set_ACK bit_set_ACK_THD
        bit_of_cbool written_append of_cbool_def transactions_append_Begin
        VEML6070_ADDR_ARA_def VEML6070_ADDR_L_def)
qed

theorem setInterrupt_bits_witness:
  "transactions (trace (snd (setInterrupt True False \<lparr>commandRegister = 0x0F\<rparr> (world0 []))))
     = [ReadFrom 0x0C 1, WriteTo 0x38 [0x2F]] \<and>
   transactions (trace (snd (setInterrupt False True \<lparr>commandRegister = 0x2F\<rparr> (world0 []))))
     = [ReadFrom 0x0C 1, WriteTo 0x38 [0x1F]]"
  using setInterrupt_bits [of True False "\<lparr>commandRegister = 0x0F\<rparr>" "world0 []"]
    setInterrupt_bits [of False True "\<lparr>commandRegister = 0x2F\<rparr>" "world0 []"]
  by (simp add: setInterrupt_eq world0_def set_ACK_THD_def set_ACK_def of_cbool_def
      VEML6070_ADDR_ARA_def VEML6070_ADDR_L_def)

text \<open>
  C6. One call of \<open>begin\<close>, and one call of \<open>setInterrupt\<close>, adds to the trace, in this
  order, the transport's \<open>begin\<close>, one request of 1 byte from \<open>0x0C\<close>, the transport's
  \<open>begin\<close> again, and one write transaction to \<open>0x38\<close> carrying the command register. As
  bus transactions that is one read of 1 byte from \<open>0x0C\<close>, then one write to \<open>0x38\<close>, and
  nothing else.
\<close>

theorem clear_before_write:
  "(let s = begin_drv itime d w; b = commandRegister (fst s) in
      trace (snd s) = trace w @
        [Begin, RequestFrom 0x0C 1, Begin, BeginTransmission 0x38, Write b, EndTransmission] \<and>
      transactions (since w (snd s)) = [ReadFrom 0x0C 1, WriteTo 0x38 [b]]) \<and>
   (let s = setInterrupt state level d w; b = commandRegister (fst s) in
      trace (snd s) = trace w @
        [Begin, RequestFrom 0x0C 1, Begin, BeginTransmission 0x38, Write b, EndTransmission] \<and>
      transactions (since w (snd s)) = [ReadFrom 0x0C 1, WriteTo 0x38 [b]])"
  by (simp add: begin_drv_eq setInterrupt_eq VEML6070_ADDR_ARA_def VEML6070_ADDR_L_def)

theorem clear_before_write_witness:
  "transactions (trace (snd (begin_drv 1 Adafruit_VEML6070_new (world0 []))))
     = [ReadFrom 0x0C 1, WriteTo 0x38 [0x06]] \<and>
   transactions (trace (snd (setInterrupt True True Adafruit_VEML6070_new (world0 []))))
     = [ReadFrom 0x0C 1, WriteTo 0x38 [0x32]]"
  using clear_before_write [of 1 Adafruit_VEML6070_new "world0 []" True True]
  by (simp add: begin_drv_eq setInterrupt_eq Adafruit_VEML6070_new_def world0_def set_IT_def
      set_ACK_THD_def set_ACK_def of_cbool_def VEML6070_ADDR_ARA_def VEML6070_ADDR_L_def)

text \<open>
  C7. \<open>sleep(state)\<close> sets bit 0 (SD) of the cached command register to \<open>state\<close>, leaves
  its other bits as they were, and writes the whole register in one write transaction
  to \<open>0x38\<close>, its only bus transaction: nothing is read from \<open>0x0C\<close>. On a freshly
  constructed driver \<open>sleep(true)\<close> is one write of \<open>0x03\<close> to \<open>0x38\<close>.
\<close>

theorem sleep_no_clear:
  "(let s = sleep state d w; b = commandRegister (fst s) in
      bit b 0 = state \<and>
      (\<forall>n. n \<noteq> 0 \<longrightarrow> bit b n = bit (commandRegister d) n) \<and>
      trace (snd s) = trace w @ [Begin, BeginTransmission 0x38, Write b, EndTransmission] \<and>
      transactions (since w (snd s)) = [WriteTo 0x38 [b]]) \<and>
   transactions (since w (snd (sleep True Adafruit_VEML6070_new w))) = [WriteTo 0x38 [0x03]]"
proof -
  have "set_SD 1 2 = 3"
    by (simp add: set_SD_def)
  then show ?thesis
    by (simp add: sleep_eq Adafruit_VEML6070_new_def bit_set_SD bit_of_cbool of_cbool_def
        VEML6070_ADDR_L_def)
qed

theorem sleep_no_clear_witness:
  "trace (snd (sleep True Adafruit_VEML6070_new (world0 [])))
     = [Begin, BeginTransmission 0x38, Write 0x03, EndTransmission] \<and>
   trace (snd (sleep False \<lparr>commandRegister = 0x3F\<rparr> (world0 [])))
     = [Begin, BeginTransmission 0x38, Write 0x3E, EndTransmission]"
  using sleep_no_clear [of True Adafruit_VEML6070_new "world0 []"]
    sleep_no_clear [of False "\<lparr>commandRegister = 0x3F\<rparr>" "world0 []"]
  by (simp add: sleep_eq Adafruit_VEML6070_new_def world0_def set_SD_def of_cbool_def
      VEML6070_ADDR_L_def)

text \<open>
  C8. The driver is to call the transport's \<open>begin\<close> before the first bus transaction of
  every public call. \<open>readUV\<close> does not: called on a freshly constructed driver, with a
  device that answers \<open>0x01\<close> and \<open>0x23\<close>, it waits 63 ms and requests the high byte from
  \<open>0x39\<close> on a transport on which \<open>begin\<close> was never called. The other four calls do start
  with it (\<open>transport_begin_first\<close>).
\<close>

theorem readUV_fresh_no_transport_begin:
  "trace (snd (snd (readUV Adafruit_VEML6070_new (world0 [[0x01], [0x23]]))))
     = [Delay 63, RequestFrom 0x39 1, Read, RequestFrom 0x38 1, Read]"
  by (simp add: readUV_eq waited_def answer_def world0_def Adafruit_VEML6070_new_def get_IT_def
      VEML6070_ADDR_H_def VEML6070_ADDR_L_def)

text \<open>
  C9, as stated, fails: \<open>clearAck\<close> does not consume the byte it receives. After
  \<open>clearAck\<close> on a device that acknowledges with the byte \<open>0x55\<close>, the byte is still in the
  transport's receive buffer, and the transport's next \<open>read\<close> returns it.
\<close>

theorem clearAck_byte_not_consumed:
  "rxBuffer (snd (snd (clearAck Adafruit_VEML6070_new (world0 [[0x55]])))) = [0x55] \<and>
   fst (i2c_read (snd (snd (clearAck Adafruit_VEML6070_new (world0 [[0x55]]))))) = 0x55"
  by (simp add: clearAck_eq answer_def world0_def i2c_read_def)

text \<open>
  C9, amended. \<open>clearAck\<close> issues exactly one request of 1 byte to \<open>0x0C\<close>, its only bus
  transaction; it does not call \<open>read\<close>, so when it returns the byte received, if any, is
  still in the transport's receive buffer; and it returns true exactly when the request
  received a byte, that is when the device acknowledged.
\<close>

theorem clearAck_request:
  "let r = clearAck d w; w' = snd (snd r) in
     trace w' = trace w @ [Begin, RequestFrom 0x0C 1] \<and>
     transactions (since w w') = [ReadFrom 0x0C 1] \<and>
     Read \<notin> set (since w w') \<and>
     fst r = (answer w 0 \<noteq> []) \<and>
     rxBuffer w' = take 1 (answer w 0)"
  by (simp add: clearAck_eq VEML6070_ADDR_ARA_def)

theorem clearAck_request_witness:
  "clearAck Adafruit_VEML6070_new (world0 [[0x55]])
     = (True, Adafruit_VEML6070_new,
        \<lparr>trace = [Begin, RequestFrom 0x0C 1], rxBuffer = [0x55], device = []\<rparr>) \<and>
   fst (clearAck Adafruit_VEML6070_new (world0 [])) = False"
  using clearAck_request [of Adafruit_VEML6070_new "world0 [[0x55]]"]
    clearAck_request [of Adafruit_VEML6070_new "world0 []"]
  by (simp add: clearAck_eq answer_def world0_def VEML6070_ADDR_ARA_def)

text \<open>
  C10. Neither \<open>readUV\<close> (whether it returns a reading or \<open>0xFFFF\<close>) nor \<open>clearAck\<close>
  (whatever it returns) changes the cached command register: for every driver state
  and every world, the register after the call equals the register before it.
\<close>

theorem readUV_clearAck_frame:
  "commandRegister (fst (snd (readUV d w))) = commandRegister d \<and>
   commandRegister (fst (snd (clearAck d w))) = commandRegister d"
  by (simp add: readUV_eq clearAck_eq)

theorem readUV_clearAck_frame_witness:
  "commandRegister (fst (snd (readUV \<lparr>commandRegister = 0x3E\<rparr> (world0 [[0x01]])))) = 0x3E \<and>
   commandRegister (fst (snd (clearAck \<lparr>commandRegister = 0x3E\<rparr> (world0 [[0x55]])))) = 0x3E"
  using readUV_clearAck_frame [of "\<lparr>commandRegister = 0x3E\<rparr>" "world0 [[0x01]]"]
    readUV_clearAck_frame [of "\<lparr>commandRegister = 0x3E\<rparr>" "world0 [[0x55]]"]
  by simp

end
